theory Spec2Isabelle
  imports Complex_Main "HOL-Library.AList" "HOL-Library.Sublist"
begin

section \<open>The todo server of \<^verbatim>\<open>server.js\<close>\<close>

subsection \<open>JavaScript values\<close>

text \<open>
  Every value the handlers touch comes out of \<^verbatim>\<open>JSON.parse\<close> or out of the query string,
  so a value is a JSON value. An object is the list of its own properties in property
  order. A number is kept as a rational: the program only tests numbers for being zero
  and for equality. The non-finite numbers that \<^verbatim>\<open>JSON.parse\<close> gives for literals such
  as \<^verbatim>\<open>1e400\<close>, and that \<^verbatim>\<open>JSON.stringify\<close> writes as \<^verbatim>\<open>null\<close>, are not values of this type:
  every number of a payload or of the file is finite here.
  \<^verbatim>\<open>undefined\<close> is \<open>None\<close> of \<open>json option\<close>.
\<close>

datatype json =
    JNull
  | JBool bool
  | JNum rat
  | JStr string
  | JArr "json list"
  | JObj "(string \<times> json) list"

datatype error =
    ENOENT
  | EIO
  | SyntaxError
  | TypeError
  | InvalidJSON
  | StreamError

text \<open>
  What can be thrown: the two failures of \<^verbatim>\<open>fs.readFile\<close> the program tells apart (no
  such file, anything else), the SyntaxError of \<^verbatim>\<open>JSON.parse\<close>, a TypeError, the
  \<^verbatim>\<open>Error("Invalid JSON")\<close> of the body parser and an error of the request stream.
  A computation that may throw returns \<open>Inl\<close> of the error; \<open>bnd\<close> runs the next step on
  a result and passes an error on.
\<close>

definition bnd :: "error + 'a \<Rightarrow> ('a \<Rightarrow> error + 'b) \<Rightarrow> error + 'b" where
  "bnd m f = (case m of Inl e \<Rightarrow> Inl e | Inr x \<Rightarrow> f x)"

text \<open>JavaScript's \<^verbatim>\<open>ToBoolean\<close>, as used by \<^verbatim>\<open>!x\<close>, \<^verbatim>\<open>x ? a : b\<close> and \<^verbatim>\<open>x || y\<close>.\<close>

fun truthy :: "json option \<Rightarrow> bool" where
  "truthy None = False"
| "truthy (Some JNull) = False"
| "truthy (Some (JBool b)) = b"
| "truthy (Some (JNum n)) = (n \<noteq> 0)"
| "truthy (Some (JStr s)) = (s \<noteq> [])"
| "truthy (Some (JArr xs)) = True"
| "truthy (Some (JObj kvs)) = True"

text \<open>
  \<^verbatim>\<open>a === b\<close> between two values that do not share an object: the operands of every
  \<^verbatim>\<open>===\<close> in the program come from different calls of \<^verbatim>\<open>JSON.parse\<close> or from the query
  string, so two arrays or two objects are never the same reference.
\<close>

fun strict_eq :: "json option \<Rightarrow> json option \<Rightarrow> bool" where
  "strict_eq None None = True"
| "strict_eq (Some JNull) (Some JNull) = True"
| "strict_eq (Some (JBool a)) (Some (JBool b)) = (a = b)"
| "strict_eq (Some (JNum a)) (Some (JNum b)) = (a = b)"
| "strict_eq (Some (JStr a)) (Some (JStr b)) = (a = b)"
| "strict_eq _ _ = False"

text \<open>
  \<^verbatim>\<open>t.k\<close> for the property names the program reads (\<^verbatim>\<open>id\<close>, \<^verbatim>\<open>title\<close>, \<^verbatim>\<open>body\<close>), none of
  which a prototype defines: reading a property of \<^verbatim>\<open>null\<close> throws a TypeError, an
  object gives its own property or \<^verbatim>\<open>undefined\<close>, anything else gives \<^verbatim>\<open>undefined\<close>.
  Destructuring \<^verbatim>\<open>const { title } = body\<close> behaves the same way.
\<close>

fun get_prop :: "json \<Rightarrow> string \<Rightarrow> error + json option" where
  "get_prop JNull k = Inl TypeError"
| "get_prop (JObj kvs) k = Inr (map_of kvs k)"
| "get_prop (JBool b) k = Inr None"
| "get_prop (JNum n) k = Inr None"
| "get_prop (JStr s) k = Inr None"
| "get_prop (JArr xs) k = Inr None"

text \<open>
  \<^verbatim>\<open>t.k = v\<close>: throws on \<^verbatim>\<open>null\<close>; on an object it overwrites the property where it
  stands or adds it last; on a primitive it is dropped silently (the module is not in
  strict mode) and on an array it adds a property that \<^verbatim>\<open>JSON.stringify\<close> never emits.
\<close>

fun set_prop :: "json \<Rightarrow> string \<Rightarrow> json \<Rightarrow> error + json" where
  "set_prop JNull k v = Inl TypeError"
| "set_prop (JObj kvs) k v = Inr (JObj (AList.update k v kvs))"
| "set_prop (JBool b) k v = Inr (JBool b)"
| "set_prop (JNum n) k v = Inr (JNum n)"
| "set_prop (JStr s) k v = Inr (JStr s)"
| "set_prop (JArr xs) k v = Inr (JArr xs)"

text \<open>
  An object literal as \<^verbatim>\<open>JSON.stringify\<close> emits it: a property whose value is
  \<^verbatim>\<open>undefined\<close> is left out.
\<close>

definition object_literal :: "(string \<times> json option) list \<Rightarrow> json" where
  "object_literal ps = JObj (List.map_filter (\<lambda>(k, v). map_option (Pair k) v) ps)"

text \<open>
  Calling an array method (\<^verbatim>\<open>find\<close>, \<^verbatim>\<open>findIndex\<close>, \<^verbatim>\<open>filter\<close>, \<^verbatim>\<open>push\<close>) on the loaded
  value: anything but an array has no such method and the call throws a TypeError.
\<close>

fun as_array :: "json \<Rightarrow> error + json list" where
  "as_array (JArr ts) = Inr ts"
| "as_array JNull = Inl TypeError"
| "as_array (JBool b) = Inl TypeError"
| "as_array (JNum n) = Inl TypeError"
| "as_array (JStr s) = Inl TypeError"
| "as_array (JObj kvs) = Inl TypeError"

text \<open>The array methods, with a callback that may throw.\<close>

fun find_js :: "(json \<Rightarrow> error + bool) \<Rightarrow> json list \<Rightarrow> error + json option" where
  "find_js p [] = Inr None"
| "find_js p (t # ts) =
     (case p t of
        Inl e \<Rightarrow> Inl e
      | Inr b \<Rightarrow> if b then Inr (Some t) else find_js p ts)"

fun findIndex_from :: "int \<Rightarrow> (json \<Rightarrow> error + bool) \<Rightarrow> json list \<Rightarrow> error + int" where
  "findIndex_from i p [] = Inr (- 1)"
| "findIndex_from i p (t # ts) =
     (case p t of
        Inl e \<Rightarrow> Inl e
      | Inr b \<Rightarrow> if b then Inr i else findIndex_from (i + 1) p ts)"

definition findIndex_js :: "(json \<Rightarrow> error + bool) \<Rightarrow> json list \<Rightarrow> error + int" where
  "findIndex_js p ts = findIndex_from 0 p ts"

fun filter_js :: "(json \<Rightarrow> error + bool) \<Rightarrow> json list \<Rightarrow> error + json list" where
  "filter_js p [] = Inr []"
| "filter_js p (t # ts) =
     (case p t of
        Inl e \<Rightarrow> Inl e
      | Inr b \<Rightarrow>
          (case filter_js p ts of
             Inl e \<Rightarrow> Inl e
           | Inr r \<Rightarrow> Inr (if b then t # r else r)))"

subsection \<open>Texts, the file and the store\<close>

text \<open>
  A text (the file's content, a request body) is kept as what the program can tell
  about it: it is the empty string, or \<^verbatim>\<open>JSON.parse\<close> throws on it, or \<^verbatim>\<open>JSON.parse\<close>
  gives a value.
\<close>

datatype raw =
    Blank
  | Garbled
  | Encodes json

fun JSON_parse :: "raw \<Rightarrow> error + json" where
  "JSON_parse Blank = Inl SyntaxError"
| "JSON_parse Garbled = Inl SyntaxError"
| "JSON_parse (Encodes v) = Inr v"

text \<open>
  The state of \<^verbatim>\<open>db/todo.json\<close>: no such file, a file that cannot be read, or a file
  holding a text.
\<close>

datatype disk =
    NoEntry
  | Unreadable
  | Holds raw

fun readFile :: "disk \<Rightarrow> error + raw" where
  "readFile NoEntry = Inl ENOENT"
| "readFile Unreadable = Inl EIO"
| "readFile (Holds r) = Inr r"

definition readTodos :: "disk \<Rightarrow> error + json" where
  "readTodos d =
     (let catch = (\<lambda>err. if err = ENOENT then Inr (JArr []) else Inl err) in
      case readFile d of
        Inl err \<Rightarrow> catch err
      | Inr r \<Rightarrow>
          (case JSON_parse (if r = Blank then Encodes (JArr []) else r) of
             Inl err \<Rightarrow> catch err
           | Inr parsed \<Rightarrow> Inr parsed))"

subsection \<open>Identifiers, requests and responses\<close>

text \<open>
  What a request meets outside the program: \<^verbatim>\<open>Date.now()\<close>, the integer
  \<^verbatim>\<open>Math.floor(Math.random() * 10000)\<close>, \<^verbatim>\<open>new Date().toLocaleString()\<close>, and whether
  \<^verbatim>\<open>fs.writeFile\<close> resolves when the request writes the file (it rejects when the
  directory is missing, the file is read-only or the disk is full).
\<close>

record env =
  now :: nat
  rnd :: nat
  locale_string :: string
  write_ok :: bool

text \<open>
  \<^verbatim>\<open>writeTodos\<close> overwrites the file with \<^verbatim>\<open>JSON.stringify(todos, null, 2)\<close>, a text that
  parses back to \<open>todos\<close>. When \<^verbatim>\<open>fs.writeFile\<close> rejects, \<^verbatim>\<open>writeTodos\<close> throws and the file
  is taken to be as it was.
\<close>

definition writeTodos :: "env \<Rightarrow> json \<Rightarrow> disk \<Rightarrow> error + disk" where
  "writeTodos e todos d = (if write_ok e then Inr (Holds (Encodes todos)) else Inl EIO)"

definition digit :: "nat \<Rightarrow> char" where
  "digit n = ''0123456789'' ! n"

fun decimal :: "nat \<Rightarrow> string" where
  "decimal n =
     (if n < 10 then [digit n]
      else decimal (n div 10) @ [digit (n mod 10)])"

declare decimal.simps [simp del]

definition makeId :: "env \<Rightarrow> string" where
  "makeId e = decimal (now e) @ ''-'' @ decimal (rnd e)"

datatype upload =
    Received raw
  | Aborted

text \<open>
  \<open>query_id\<close> and \<open>query_title\<close> are \<^verbatim>\<open>url.searchParams.get("id")\<close> and
  \<^verbatim>\<open>url.searchParams.get("title")\<close>: a string, or \<^verbatim>\<open>null\<close> when the parameter is not in
  the query.
\<close>

record request =
  "method" :: string
  pathname :: string
  query_id :: "string option"
  query_title :: "string option"
  upload :: upload

fun param :: "string option \<Rightarrow> json option" where
  "param None = Some JNull"
| "param (Some s) = Some (JStr s)"

record response =
  status :: nat
  payload :: json

definition sendJSON :: "nat \<Rightarrow> json \<Rightarrow> response" where
  "sendJSON st p = \<lparr>status = st, payload = p\<rparr>"

definition error_payload :: "string \<Rightarrow> json" where
  "error_payload msg = JObj [(''error'', JStr msg)]"

fun parseBody :: "upload \<Rightarrow> error + json" where
  "parseBody Aborted = Inl StreamError"
| "parseBody (Received data) =
     (if data = Blank then Inr (JObj [])
      else case JSON_parse data of
             Inl err \<Rightarrow> Inl InvalidJSON
           | Inr v \<Rightarrow> Inr v)"

subsection \<open>The handlers\<close>

definition prop_is :: "string \<Rightarrow> json option \<Rightarrow> json \<Rightarrow> error + bool" where
  "prop_is k v t = bnd (get_prop t k) (\<lambda>x. Inr (strict_eq x v))"

definition prop_is_not :: "string \<Rightarrow> json option \<Rightarrow> json \<Rightarrow> error + bool" where
  "prop_is_not k v t = bnd (get_prop t k) (\<lambda>x. Inr (\<not> strict_eq x v))"

definition get_todos :: "disk \<Rightarrow> error + response \<times> disk" where
  "get_todos d = bnd (readTodos d) (\<lambda>todos. Inr (sendJSON 200 todos, d))"

definition get_todo :: "request \<Rightarrow> disk \<Rightarrow> error + response \<times> disk" where
  "get_todo req d =
     (let id = param (query_id req); title = param (query_title req) in
      bnd (readTodos d) (\<lambda>todos.
      bnd (as_array todos) (\<lambda>ts.
      bnd (if truthy id then find_js (prop_is ''id'' id) ts
           else find_js (prop_is ''title'' title) ts) (\<lambda>todo.
        case todo of
          None \<Rightarrow> Inr (sendJSON 404 (error_payload ''Todo not found''), d)
        | Some t \<Rightarrow>
            if \<not> truthy (Some t) then Inr (sendJSON 404 (error_payload ''Todo not found''), d)
            else Inr (sendJSON 200 t, d)))))"

definition create_todo :: "env \<Rightarrow> request \<Rightarrow> disk \<Rightarrow> error + response \<times> disk" where
  "create_todo e req d =
     bnd (parseBody (upload req)) (\<lambda>body.
     bnd (get_prop body ''title'') (\<lambda>title.
     bnd (get_prop body ''body'') (\<lambda>todoBody.
       if \<not> truthy title \<or> (\<not> truthy todoBody \<and> \<not> strict_eq todoBody (Some (JStr '''')))
       then Inr (sendJSON 400 (error_payload ''title and body are required''), d)
       else
         bnd (readTodos d) (\<lambda>todos.
         bnd (as_array todos) (\<lambda>ts.
         bnd (find_js (prop_is ''title'' title) ts) (\<lambda>dup.
           if truthy dup
           then Inr (sendJSON 409 (error_payload ''Todo with this title already exists''), d)
           else
             (let newTodo = object_literal
                    [(''id'', Some (JStr (makeId e))),
                     (''title'', title),
                     (''body'', todoBody),
                     (''createdAt'', Some (JStr (locale_string e)))]
              in bnd (writeTodos e (JArr (ts @ [newTodo])) d) (\<lambda>d'.
                   Inr (sendJSON 201 newTodo, d')))))))))"

definition update_todo :: "env \<Rightarrow> request \<Rightarrow> disk \<Rightarrow> error + response \<times> disk" where
  "update_todo e req d =
     (let id = param (query_id req); titleParam = param (query_title req) in
      bnd (parseBody (upload req)) (\<lambda>payload.
      bnd (get_prop payload ''body'') (\<lambda>newBody.
        case newBody of
          None \<Rightarrow> Inr (sendJSON 400 (error_payload ''body is required in payload''), d)
        | Some b \<Rightarrow>
            bnd (readTodos d) (\<lambda>todos.
            bnd (as_array todos) (\<lambda>ts.
            bnd (if truthy id then findIndex_js (prop_is ''id'' id) ts
                 else findIndex_js (prop_is ''title'' titleParam) ts) (\<lambda>idx.
              if idx = - 1 then Inr (sendJSON 404 (error_payload ''Todo not found''), d)
              else if idx < 0 \<or> int (length ts) \<le> idx then Inl TypeError
              else
                bnd (set_prop (ts ! nat idx) ''body'' b) (\<lambda>t.
                bnd (writeTodos e (JArr (ts[nat idx := t])) d) (\<lambda>d'.
                  Inr (sendJSON 200 t, d')))))))))"

definition delete_todo :: "env \<Rightarrow> request \<Rightarrow> disk \<Rightarrow> error + response \<times> disk" where
  "delete_todo e req d =
     (let id = param (query_id req); titleParam = param (query_title req) in
      if \<not> truthy id \<and> \<not> truthy titleParam
      then Inr (sendJSON 400 (error_payload ''id or title query param required''), d)
      else
        bnd (readTodos d) (\<lambda>todos.
        bnd (as_array todos) (\<lambda>ts.
        bnd (filter_js (\<lambda>t. if truthy id then prop_is_not ''id'' id t
                             else prop_is_not ''title'' titleParam t) ts) (\<lambda>filtered.
          if length filtered = length ts
          then Inr (sendJSON 404 (error_payload ''Todo not found''), d)
          else bnd (writeTodos e (JArr filtered) d) (\<lambda>d'.
                 Inr (sendJSON 200 (JObj [(''success'', JBool True)]), d'))))))"

definition route :: "env \<Rightarrow> request \<Rightarrow> disk \<Rightarrow> error + response \<times> disk" where
  "route e req d =
     (if pathname req = ''/todos'' \<and> method req = ''GET'' then get_todos d
      else if pathname req = ''/todo'' \<and> method req = ''GET'' then get_todo req d
      else if pathname req = ''/todos/create-todo'' \<and> method req = ''POST''
        then create_todo e req d
      else if pathname req = ''/todos/update-todo'' \<and> method req = ''PATCH''
        then update_todo e req d
      else if pathname req = ''/todos/delete-todo'' \<and> method req = ''DELETE''
        then delete_todo e req d
      else Inr (sendJSON 404 (error_payload ''Route Not Found''), d))"

text \<open>
  The request listener: the \<^verbatim>\<open>catch\<close> answers 400 to the body parser's
  \<^verbatim>\<open>Error("Invalid JSON")\<close> and 500 to anything else, a rejected write included; the file
  is as it was when it runs.
\<close>

definition server :: "env \<Rightarrow> request \<Rightarrow> disk \<Rightarrow> response \<times> disk" where
  "server e req d =
     (case route e req d of
        Inr out \<Rightarrow> out
      | Inl err \<Rightarrow>
          if err = InvalidJSON then (sendJSON 400 (error_payload ''Invalid JSON payload''), d)
          else (sendJSON 500 (error_payload ''Internal Server Error''), d))"

subsection \<open>Notions used to state the properties\<close>

text \<open>
  The property \<open>k\<close> of a value that is not \<^verbatim>\<open>null\<close>: what \<open>get_prop\<close> returns where it
  does not throw.
\<close>

fun field :: "string \<Rightarrow> json \<Rightarrow> json option" where
  "field k (JObj kvs) = map_of kvs k"
| "field k JNull = None"
| "field k (JBool b) = None"
| "field k (JNum n) = None"
| "field k (JStr s) = None"
| "field k (JArr xs) = None"

text \<open>The create handler's guard on the payload, negated.\<close>

definition passes_validation :: "json \<Rightarrow> bool" where
  "passes_validation p \<longleftrightarrow>
     truthy (field ''title'' p) \<and>
     (truthy (field ''body'' p) \<or> field ''body'' p = Some (JStr ''''))"

text \<open>A query parameter counts for the handlers when it is there and not empty.\<close>

fun given :: "string option \<Rightarrow> bool" where
  "given None = False"
| "given (Some s) = (s \<noteq> [])"

text \<open>
  The record \<open>t\<close> is the one a lookup request asks for: by id when an id is given, by
  title otherwise.
\<close>

definition matches_key :: "request \<Rightarrow> json \<Rightarrow> bool" where
  "matches_key req t =
     (if given (query_id req) then strict_eq (field ''id'' t) (param (query_id req))
      else strict_eq (field ''title'' t) (param (query_title req)))"

text \<open>
  The collection a file stands for: what the handlers work on once \<open>readTodos\<close> has
  returned an array. (On any other file no handler writes.)
\<close>

definition collection :: "disk \<Rightarrow> json list" where
  "collection d = (case readTodos d of Inr (JArr ts) \<Rightarrow> ts | _ \<Rightarrow> [])"

text \<open>A record without its body, the only property an update may change.\<close>

fun without_body :: "json \<Rightarrow> json" where
  "without_body (JObj kvs) = JObj (AList.delete ''body'' kvs)"
| "without_body JNull = JNull"
| "without_body (JBool b) = JBool b"
| "without_body (JNum n) = JNum n"
| "without_body (JStr s) = JStr s"
| "without_body (JArr xs) = JArr xs"

text \<open>
  Following a record through a request. Records leave the collection only in a delete
  request that is answered 200, and those that leave are those matching its key; the
  record at position \<open>i\<close> that stays is then found after as many records as stay
  among the \<open>i\<close> before it. After any other request it is at position \<open>i\<close>.
\<close>

definition removes :: "env \<Rightarrow> request \<Rightarrow> disk \<Rightarrow> bool" where
  "removes e req d \<longleftrightarrow>
     method req = ''DELETE'' \<and> pathname req = ''/todos/delete-todo'' \<and>
     status (fst (server e req d)) = 200"

definition track :: "env \<Rightarrow> request \<Rightarrow> disk \<Rightarrow> nat \<Rightarrow> nat option" where
  "track e req d i =
     (let ts = collection d in
      if length ts \<le> i then None
      else if removes e req d then
        (if matches_key req (ts ! i) then None
         else Some (length (filter (\<lambda>t. \<not> matches_key req t) (take i ts))))
      else Some i)"

text \<open>Requests served one after the other, and a record followed through all of them.\<close>

fun run :: "(env \<times> request) list \<Rightarrow> disk \<Rightarrow> disk" where
  "run [] d = d"
| "run ((e, req) # rs) d = run rs (snd (server e req d))"

fun track_run :: "(env \<times> request) list \<Rightarrow> disk \<Rightarrow> nat \<Rightarrow> nat option" where
  "track_run [] d i = (if i < length (collection d) then Some i else None)"
| "track_run ((e, req) # rs) d i =
     (case track e req d i of
        None \<Rightarrow> None
      | Some j \<Rightarrow> track_run rs (snd (server e req d)) j)"



text \<open>Sample inputs for the closed instances below.\<close>

definition env0 :: env where
  "env0 = \<lparr>now = 1700000000000, rnd = 42, locale_string = ''11/14/2023, 10:13:20 PM'',
            write_ok = True\<rparr>"


definition milk :: json where
  "milk = JObj [(''id'', JStr ''1699999999999-7''), (''title'', JStr ''buy milk''),
                (''body'', JStr ''''), (''createdAt'', JStr ''11/14/2023, 10:13:19 PM'')]"

definition eggs :: json where
  "eggs = JObj [(''id'', JStr ''1699999999999-8''), (''title'', JStr ''buy eggs''),
                (''body'', JStr ''a dozen''), (''createdAt'', JStr ''11/14/2023, 10:13:19 PM'')]"

definition tea :: json where
  "tea = JObj [(''id'', JStr ''1699999999999-9''), (''title'', JStr ''make tea''),
               (''body'', JStr ''''), (''createdAt'', JStr ''11/14/2023, 10:13:19 PM'')]"

definition clash :: json where
  "clash = JObj [(''id'', JStr ''1700000000000-42''), (''title'', JStr ''call home''),
                 (''body'', JStr ''''), (''createdAt'', JStr ''11/14/2023, 10:13:20 PM'')]"

definition stored :: "json list \<Rightarrow> disk" where
  "stored ts = Holds (Encodes (JArr ts))"

definition post_create :: "raw \<Rightarrow> request" where
  "post_create data =
     \<lparr>method = ''POST'', pathname = ''/todos/create-todo'',
      query_id = None, query_title = None, upload = Received data\<rparr>"

definition patch_update :: "string option \<Rightarrow> string option \<Rightarrow> raw \<Rightarrow> request" where
  "patch_update i t data =
     \<lparr>method = ''PATCH'', pathname = ''/todos/update-todo'',
      query_id = i, query_title = t, upload = Received data\<rparr>"

definition get_one :: "string option \<Rightarrow> string option \<Rightarrow> request" where
  "get_one i t =
     \<lparr>method = ''GET'', pathname = ''/todo'',
      query_id = i, query_title = t, upload = Received Blank\<rparr>"

definition get_all :: request where
  "get_all =
     \<lparr>method = ''GET'', pathname = ''/todos'',
      query_id = None, query_title = None, upload = Received Blank\<rparr>"

definition delete_one :: "string option \<Rightarrow> string option \<Rightarrow> request" where
  "delete_one i t =
     \<lparr>method = ''DELETE'', pathname = ''/todos/delete-todo'',
      query_id = i, query_title = t, upload = Received Blank\<rparr>"

section \<open>Properties\<close>

subsection \<open>Auxiliary facts\<close>

lemma get_prop_field: "t \<noteq> JNull \<Longrightarrow> get_prop t k = Inr (field k t)"
  by (cases t) simp_all

lemma field_Some_not_null: "field k t = Some v \<Longrightarrow> t \<noteq> JNull"
  by (cases t) simp_all

lemma prop_is_field: "t \<noteq> JNull \<Longrightarrow> prop_is k v t = Inr (strict_eq (field k t) v)"
  by (simp add: prop_is_def bnd_def get_prop_field)

lemma prop_is_not_field:
  "t \<noteq> JNull \<Longrightarrow> prop_is_not k v t = Inr (\<not> strict_eq (field k t) v)"
  by (simp add: prop_is_not_def bnd_def get_prop_field)


lemma filter_js_total:
  "\<forall>t \<in> set ts. p t = Inr (q t) \<Longrightarrow> filter_js p ts = Inr (filter q ts)"
  by (induction ts) simp_all


lemma strict_eq_obj: "strict_eq (field k t) v \<Longrightarrow> v \<noteq> None \<Longrightarrow> \<exists>kvs. t = JObj kvs"
  by (cases t) auto

lemma strict_eq_empty: "strict_eq v (Some (JStr '''')) \<longleftrightarrow> v = Some (JStr '''')"
  by (cases "(v, Some (JStr ''''))" rule: strict_eq.cases) auto

lemma strict_eq_JStr: "strict_eq v (Some (JStr s)) \<longleftrightarrow> v = Some (JStr s)"
  by (cases "(v, Some (JStr s))" rule: strict_eq.cases) auto


lemma makeId_nonempty: "makeId e \<noteq> []"
  by (simp add: makeId_def)

lemma decimal_now0: "decimal 1700000000000 = ''1700000000000''"
  by (simp add: decimal.simps digit_def)

lemma decimal_rnd0: "decimal 42 = ''42''"
  by (simp add: decimal.simps digit_def)

lemma makeId_env0: "makeId env0 = ''1700000000000-42''"
  by (simp add: makeId_def env0_def decimal_now0 decimal_rnd0)

lemma create_route:
  "method req = ''POST'' \<Longrightarrow> pathname req = ''/todos/create-todo''
     \<Longrightarrow> route e req d = create_todo e req d"
  by (simp add: route_def)

lemma update_route:
  "method req = ''PATCH'' \<Longrightarrow> pathname req = ''/todos/update-todo''
     \<Longrightarrow> route e req d = update_todo e req d"
  by (simp add: route_def)


lemma get_todo_route:
  "method req = ''GET'' \<Longrightarrow> pathname req = ''/todo'' \<Longrightarrow> route e req d = get_todo req d"
  by (simp add: route_def)

lemma readTodos_stored: "readTodos (stored ts) = Inr (JArr ts)"
  by (simp add: readTodos_def stored_def)

lemma create_todo_invalid:
  assumes "parseBody (upload req) = Inr p" and "p \<noteq> JNull" and "\<not> passes_validation p"
  shows "create_todo e req d =
    Inr (sendJSON 400 (error_payload ''title and body are required''), d)"
  using assms unfolding create_todo_def passes_validation_def
  by (auto simp add: bnd_def get_prop_field strict_eq_empty)

lemma create_todo_valid_status:
  assumes "parseBody (upload req) = Inr p" and "p \<noteq> JNull" and "passes_validation p"
    and "create_todo e req d = Inr (res, d')"
  shows "status res = 409 \<or> status res = 201"
  using assms unfolding create_todo_def passes_validation_def
  by (auto simp add: bnd_def get_prop_field strict_eq_empty sendJSON_def Let_def
      split: sum.splits if_splits)

lemma get_prop_error: "get_prop t k = Inl err \<Longrightarrow> err = TypeError"
  by (cases t) simp_all

lemma as_array_error: "as_array t = Inl err \<Longrightarrow> err = TypeError"
  by (cases t) simp_all

lemma prop_is_error: "prop_is k v t = Inl err \<Longrightarrow> err = TypeError"
  by (cases t) (simp_all add: prop_is_def bnd_def)

lemma find_js_error: "find_js (prop_is k v) ts = Inl err \<Longrightarrow> err = TypeError"
  by (induction ts) (auto split: sum.splits if_splits dest: prop_is_error)

lemma JSON_parse_error: "JSON_parse r = Inl err \<Longrightarrow> err = SyntaxError"
  by (cases r) simp_all

lemma readTodos_error: "readTodos d = Inl err \<Longrightarrow> err = EIO \<or> err = SyntaxError"
  by (cases d) (auto simp add: readTodos_def split: sum.splits if_splits dest: JSON_parse_error)

lemma create_todo_error:
  assumes "parseBody (upload req) = Inr p" and "create_todo e req d = Inl err"
  shows "err \<noteq> InvalidJSON"
  using assms
  by (auto simp add: create_todo_def bnd_def Let_def writeTodos_def
      split: sum.splits if_splits
      dest: get_prop_error as_array_error find_js_error readTodos_error)

subsection \<open>Creating a record\<close>




text \<open>
  C3, as amended. For a create request whose body parses to a payload other than
  \<^verbatim>\<open>null\<close>, the answer is the validation error, and its status is 400, exactly when the
  title is falsy
  (missing, \<^verbatim>\<open>null\<close>, \<^verbatim>\<open>false\<close>, \<^verbatim>\<open>0\<close> or the empty string) or the body is falsy and
  not the empty string (missing, \<^verbatim>\<open>null\<close>, \<^verbatim>\<open>false\<close> or \<^verbatim>\<open>0\<close>). A body that is the empty
  string passes.
\<close>

theorem create_validation_iff:
  assumes "method req = ''POST''" and "pathname req = ''/todos/create-todo''"
    and "parseBody (upload req) = Inr p" and "p \<noteq> JNull"
  shows "(fst (server e req d) = sendJSON 400 (error_payload ''title and body are required'')
       \<longleftrightarrow> \<not> truthy (field ''title'' p) \<or>
            (\<not> truthy (field ''body'' p) \<and> field ''body'' p \<noteq> Some (JStr ''''))) \<and>
     (status (fst (server e req d)) = 400
       \<longleftrightarrow> \<not> truthy (field ''title'' p) \<or>
            (\<not> truthy (field ''body'' p) \<and> field ''body'' p \<noteq> Some (JStr '''')))"
proof (cases "passes_validation p")
  case False
  then have "server e req d = (sendJSON 400 (error_payload ''title and body are required''), d)"
    using assms by (simp add: server_def create_route create_todo_invalid)
  with False show ?thesis by (auto simp: passes_validation_def sendJSON_def)
next
  case True
  have "status (fst (server e req d)) \<noteq> 400"
  proof (cases "create_todo e req d")
    case (Inl err)
    with assms(3) have "err \<noteq> InvalidJSON" by (rule create_todo_error)
    with Inl show ?thesis using assms(1,2)
      by (simp add: server_def create_route sendJSON_def)
  next
    case (Inr out)
    obtain res d' where out: "out = (res, d')" by (cases out)
    with Inr True assms have "status res = 409 \<or> status res = 201"
      using create_todo_valid_status by blast
    then show ?thesis using Inr out assms(1,2)
      by (auto simp add: server_def create_route)
  qed
  moreover from this
  have "fst (server e req d) \<noteq> sendJSON 400 (error_payload ''title and body are required'')"
    by (auto simp add: sendJSON_def)
  ultimately show ?thesis using True by (auto simp: passes_validation_def)
qed

text \<open>
  An instance: \<^verbatim>\<open>{"title":"buy eggs","body":""}\<close> is not answered with the validation
  error, on any state of the file; here the file holds a text that does not parse.
\<close>

theorem create_validation_iff_witness:
  "fst (server env0
          (post_create (Encodes (JObj [(''title'', JStr ''buy eggs''), (''body'', JStr '''')])))
          (Holds Garbled))
     \<noteq> sendJSON 400 (error_payload ''title and body are required'')
   \<and> status (fst (server env0
          (post_create (Encodes (JObj [(''title'', JStr ''buy eggs''), (''body'', JStr '''')])))
          (Holds Garbled)))
     \<noteq> 400"
  using create_validation_iff
    [of "post_create (Encodes (JObj [(''title'', JStr ''buy eggs''), (''body'', JStr '''')]))"
        "JObj [(''title'', JStr ''buy eggs''), (''body'', JStr '''')]" env0 "Holds Garbled"]
  by (simp add: post_create_def)

text \<open>
  C3 as it is worded fails in both directions. The title of
  \<^verbatim>\<open>{"title":"walk dog","body":false}\<close> is a non-empty string and its body key is present,
  and the answer is the validation error. The payload \<^verbatim>\<open>null\<close> has no title and no body
  key, and the answer is 500: destructuring it throws.
\<close>

theorem create_false_body_counterexample:
  "field ''title'' (JObj [(''title'', JStr ''walk dog''), (''body'', JBool False)])
      = Some (JStr ''walk dog'')
   \<and> field ''body'' (JObj [(''title'', JStr ''walk dog''), (''body'', JBool False)])
      = Some (JBool False)
   \<and> server env0
        (post_create (Encodes (JObj [(''title'', JStr ''walk dog''), (''body'', JBool False)])))
        NoEntry =
      (sendJSON 400 (error_payload ''title and body are required''), NoEntry)
   \<and> parseBody (Received (Encodes JNull)) = Inr JNull
   \<and> field ''title'' JNull = None
   \<and> server env0 (post_create (Encodes JNull)) NoEntry =
      (sendJSON 500 (error_payload ''Internal Server Error''), NoEntry)"
  by (simp add: server_def route_def post_create_def create_todo_def bnd_def)

subsection \<open>An empty request body\<close>

text \<open>
  C10. A request body that is entirely empty is parsed to the empty object, not refused
  as malformed. So a create request with an empty body is answered with the 400
  validation error for the missing title and body, and an update request with an empty
  body with the 400 error \<^verbatim>\<open>body is required in payload\<close>; neither touches the file.
\<close>

theorem empty_body_is_empty_object:
  "parseBody (Received Blank) = Inr (JObj []) \<and>
   server e (req\<lparr>method := ''POST'', pathname := ''/todos/create-todo'',
                 upload := Received Blank\<rparr>) d
     = (sendJSON 400 (error_payload ''title and body are required''), d) \<and>
   server e (req\<lparr>method := ''PATCH'', pathname := ''/todos/update-todo'',
                 upload := Received Blank\<rparr>) d
     = (sendJSON 400 (error_payload ''body is required in payload''), d)"
  by (simp add: server_def route_def create_todo_def update_todo_def bnd_def)

theorem empty_body_is_empty_object_witness:
  "server env0 (post_create Blank) (stored [milk])
     = (sendJSON 400 (error_payload ''title and body are required''), stored [milk]) \<and>
   server env0 (patch_update None (Some ''buy milk'') Blank) (stored [milk])
     = (sendJSON 400 (error_payload ''body is required in payload''), stored [milk])"
  using empty_body_is_empty_object
    [of env0 "post_create Blank" "stored [milk]"]
    empty_body_is_empty_object
    [of env0 "patch_update None (Some ''buy milk'') Blank" "stored [milk]"]
  by (simp add: post_create_def patch_update_def)

lemma truthy_param: "truthy (param x) = given x"
  by (cases x) simp_all

lemma passes_validation_not_null: "passes_validation p \<Longrightarrow> p \<noteq> JNull"
  by (cases p) (simp_all add: passes_validation_def)


lemma find_js_hit_after:
  assumes "JNull \<notin> set pre" and "strict_eq (field k t) v" and "v \<noteq> None"
  shows "\<exists>x. find_js (prop_is k v) (pre @ t # post) = Inr (Some x) \<and> truthy (Some x)"
  using assms(1)
proof (induction pre)
  case Nil
  obtain kvs where t: "t = JObj kvs"
    using assms(2,3) strict_eq_obj by blast
  with assms(2) show ?case by (simp add: prop_is_field)
next
  case (Cons a pre)
  then have a: "a \<noteq> JNull" by auto
  show ?case
  proof (cases "strict_eq (field k a) v")
    case True
    then obtain kvs where "a = JObj kvs"
      using assms(3) strict_eq_obj by blast
    with True show ?thesis by (simp add: prop_is_field)
  next
    case False
    with Cons a show ?thesis by (simp add: prop_is_field)
  qed
qed

text \<open>
  C2, as amended. A create request whose payload passes validation, served on a
  collection that already holds a record with the same title, no \<^verbatim>\<open>null\<close> entry
  standing before that record, is answered 409 and the file is left as it was: nothing
  is created or saved.
\<close>

theorem create_duplicate_title_conflict:
  assumes "method req = ''POST''" and "pathname req = ''/todos/create-todo''"
    and "parseBody (upload req) = Inr p" and "passes_validation p"
    and "readTodos d = Inr (JArr (pre @ t # post))" and "JNull \<notin> set pre"
    and "strict_eq (field ''title'' t) (field ''title'' p)"
  shows "server e req d =
    (sendJSON 409 (error_payload ''Todo with this title already exists''), d)"
proof -
  have p: "p \<noteq> JNull"
    using assms(4) by (rule passes_validation_not_null)
  have title: "field ''title'' p \<noteq> None"
    using assms(4) by (cases "field ''title'' p") (auto simp: passes_validation_def)
  obtain x where dup: "find_js (prop_is ''title'' (field ''title'' p)) (pre @ t # post)
      = Inr (Some x)" and found: "truthy (Some x)"
    using find_js_hit_after [OF assms(6,7) title] by blast
  have guard: "(\<not> truthy (field ''body'' p) \<and>
      \<not> strict_eq (field ''body'' p) (Some (JStr ''''))) = False"
    using assms(4) by (auto simp add: passes_validation_def strict_eq_empty)
  have "create_todo e req d =
      Inr (sendJSON 409 (error_payload ''Todo with this title already exists''), d)"
    unfolding create_todo_def
    using assms(3,4,5) p dup found
    by (simp add: bnd_def get_prop_field passes_validation_def guard)
  then show ?thesis
    using assms(1,2) by (simp add: server_def create_route)
qed

text \<open>An instance: the spec's example, the same POST repeated.\<close>

theorem create_duplicate_title_conflict_witness:
  "server env0
     (post_create (Encodes (JObj [(''title'', JStr ''buy milk''), (''body'', JStr '''')])))
     (stored [eggs, milk]) =
   (sendJSON 409 (error_payload ''Todo with this title already exists''), stored [eggs, milk])"
  using create_duplicate_title_conflict
    [of "post_create (Encodes (JObj [(''title'', JStr ''buy milk''), (''body'', JStr '''')]))"
        "JObj [(''title'', JStr ''buy milk''), (''body'', JStr '''')]"
        "stored [eggs, milk]" "[eggs]" milk "[]" env0]
  by (simp add: post_create_def readTodos_def stored_def milk_def eggs_def
      passes_validation_def)

text \<open>
  C2 as it is worded fails where a \<^verbatim>\<open>null\<close> entry stands before the record: the file
  \<^verbatim>\<open>[null, milk]\<close> holds a record titled \<^verbatim>\<open>buy milk\<close>, the payload
  \<^verbatim>\<open>{"title":"buy milk","body":""}\<close> passes validation, and the answer is 500, not 409:
  reading the title of the \<^verbatim>\<open>null\<close> entry throws.
\<close>

theorem create_duplicate_after_null_counterexample:
  "passes_validation (JObj [(''title'', JStr ''buy milk''), (''body'', JStr '''')])
   \<and> readTodos (stored [JNull, milk]) = Inr (JArr [JNull, milk])
   \<and> field ''title'' milk = Some (JStr ''buy milk'')
   \<and> server env0
        (post_create (Encodes (JObj [(''title'', JStr ''buy milk''), (''body'', JStr '''')])))
        (stored [JNull, milk]) =
      (sendJSON 500 (error_payload ''Internal Server Error''), stored [JNull, milk])"
  by (simp add: passes_validation_def readTodos_def stored_def milk_def server_def route_def
      post_create_def create_todo_def bnd_def prop_is_def)

subsection \<open>Loading the collection\<close>

lemma server_load_fails:
  assumes "route e req d = Inl err" and "err \<noteq> InvalidJSON"
  shows "server e req d = (sendJSON 500 (error_payload ''Internal Server Error''), d)"
  using assms by (simp add: server_def)

text \<open>
  C8. \<open>readTodos\<close> gives the empty collection when there is no file (listing then
  answers 200 with the empty sequence) and when the file is empty; it fails when the file holds a non-empty text that does not parse, and every
  handler that loads the collection then answers 500; it gives the parsed value as it is
  when the text parses.
\<close>

theorem readTodos_cases:
  "readTodos NoEntry = Inr (JArr []) \<and>
   readTodos (Holds Blank) = Inr (JArr []) \<and>
   readTodos (Holds Garbled) = Inl SyntaxError \<and>
   readTodos (Holds (Encodes v)) = Inr v \<and>
   server e (req\<lparr>method := ''GET'', pathname := ''/todos''\<rparr>) NoEntry
     = (sendJSON 200 (JArr []), NoEntry) \<and>
   server e (req\<lparr>method := ''GET'', pathname := ''/todos''\<rparr>) (Holds Garbled)
     = (sendJSON 500 (error_payload ''Internal Server Error''), Holds Garbled) \<and>
   server e (req\<lparr>method := ''GET'', pathname := ''/todo''\<rparr>) (Holds Garbled)
     = (sendJSON 500 (error_payload ''Internal Server Error''), Holds Garbled) \<and>
   (parseBody (upload req) = Inr p \<and> passes_validation p \<longrightarrow>
    server e (req\<lparr>method := ''POST'', pathname := ''/todos/create-todo''\<rparr>) (Holds Garbled)
     = (sendJSON 500 (error_payload ''Internal Server Error''), Holds Garbled)) \<and>
   (parseBody (upload req) = Inr p \<and> field ''body'' p = Some b \<longrightarrow>
    server e (req\<lparr>method := ''PATCH'', pathname := ''/todos/update-todo''\<rparr>) (Holds Garbled)
     = (sendJSON 500 (error_payload ''Internal Server Error''), Holds Garbled)) \<and>
   (given (query_id req) \<or> given (query_title req) \<longrightarrow>
    server e (req\<lparr>method := ''DELETE'', pathname := ''/todos/delete-todo''\<rparr>) (Holds Garbled)
     = (sendJSON 500 (error_payload ''Internal Server Error''), Holds Garbled))"
proof -
  have load: "readTodos (Holds Garbled) = Inl SyntaxError"
    by (simp add: readTodos_def)
  have "readTodos NoEntry = Inr (JArr [])" and "readTodos (Holds Blank) = Inr (JArr [])"
    and "readTodos (Holds (Encodes v)) = Inr v"
    by (simp_all add: readTodos_def)
  moreover have "server e (req\<lparr>method := ''GET'', pathname := ''/todos''\<rparr>) NoEntry
     = (sendJSON 200 (JArr []), NoEntry)"
    by (simp add: server_def route_def get_todos_def readTodos_def bnd_def)
  moreover have "server e (req\<lparr>method := ''GET'', pathname := ''/todos''\<rparr>) (Holds Garbled)
     = (sendJSON 500 (error_payload ''Internal Server Error''), Holds Garbled)"
    by (rule server_load_fails [where err = SyntaxError])
      (simp_all add: route_def get_todos_def load bnd_def)
  moreover have "server e (req\<lparr>method := ''GET'', pathname := ''/todo''\<rparr>) (Holds Garbled)
     = (sendJSON 500 (error_payload ''Internal Server Error''), Holds Garbled)"
    by (rule server_load_fails [where err = SyntaxError])
      (simp_all add: route_def get_todo_def load bnd_def)
  moreover have "server e (req\<lparr>method := ''POST'', pathname := ''/todos/create-todo''\<rparr>)
         (Holds Garbled)
     = (sendJSON 500 (error_payload ''Internal Server Error''), Holds Garbled)"
    if "parseBody (upload req) = Inr p" and "passes_validation p"
    using that passes_validation_not_null [OF that(2)]
    by (intro server_load_fails [where err = SyntaxError])
      (auto simp add: route_def create_todo_def load bnd_def get_prop_field
        passes_validation_def strict_eq_empty)
  moreover have "server e (req\<lparr>method := ''PATCH'', pathname := ''/todos/update-todo''\<rparr>)
         (Holds Garbled)
     = (sendJSON 500 (error_payload ''Internal Server Error''), Holds Garbled)"
    if "parseBody (upload req) = Inr p" and "field ''body'' p = Some b"
    using that field_Some_not_null [OF that(2)]
    by (intro server_load_fails [where err = SyntaxError])
      (auto simp add: route_def update_todo_def load bnd_def get_prop_field)
  moreover have "server e (req\<lparr>method := ''DELETE'', pathname := ''/todos/delete-todo''\<rparr>)
         (Holds Garbled)
     = (sendJSON 500 (error_payload ''Internal Server Error''), Holds Garbled)"
    if "given (query_id req) \<or> given (query_title req)"
    using that
    by (intro server_load_fails [where err = SyntaxError])
      (auto simp add: route_def delete_todo_def load bnd_def truthy_param)
  ultimately show ?thesis using load by blast
qed

text \<open>
  An instance: listing with no file gives the empty sequence, and a well-formed create
  on a file that does not parse gives 500.
\<close>

theorem readTodos_cases_witness:
  "readTodos (Holds (Encodes (JArr [milk]))) = Inr (JArr [milk]) \<and>
   server env0 get_all NoEntry = (sendJSON 200 (JArr []), NoEntry) \<and>
   server env0
     (post_create (Encodes (JObj [(''title'', JStr ''buy eggs''), (''body'', JStr '''')])))
     (Holds Garbled)
   = (sendJSON 500 (error_payload ''Internal Server Error''), Holds Garbled) \<and>
   server env0 (patch_update None (Some ''buy milk'') (Encodes (JObj [(''body'', JStr ''2%'')])))
     (Holds Garbled)
   = (sendJSON 500 (error_payload ''Internal Server Error''), Holds Garbled) \<and>
   server env0 (delete_one None (Some ''buy milk'')) (Holds Garbled)
   = (sendJSON 500 (error_payload ''Internal Server Error''), Holds Garbled)"
  using readTodos_cases
    [of "JArr [milk]" env0
        "post_create (Encodes (JObj [(''title'', JStr ''buy eggs''), (''body'', JStr '''')]))"
        "JObj [(''title'', JStr ''buy eggs''), (''body'', JStr '''')]" "JStr ''''"]
    readTodos_cases
    [of "JArr [milk]" env0
        "patch_update None (Some ''buy milk'') (Encodes (JObj [(''body'', JStr ''2%'')]))"
        "JObj [(''body'', JStr ''2%'')]" "JStr ''2%''"]
    readTodos_cases
    [of "JArr [milk]" env0 "delete_one None (Some ''buy milk'')" JNull JNull]
    readTodos_cases [of "JArr [milk]" env0 get_all JNull JNull]
  by (simp add: post_create_def patch_update_def delete_one_def get_all_def
      passes_validation_def)

subsection \<open>Deleting records\<close>

lemma filter_js_prop_is_not:
  assumes "JNull \<notin> set ts"
  shows "filter_js (prop_is_not k v) ts = Inr (filter (\<lambda>t. \<not> strict_eq (field k t) v) ts)"
proof (rule filter_js_total)
  show "\<forall>t\<in>set ts. prop_is_not k v t = Inr (\<not> strict_eq (field k t) v)"
    using assms by (metis prop_is_not_field)
qed

lemma delete_todo_filter:
  assumes "given (query_id req) \<or> given (query_title req)"
    and "readTodos d = Inr (JArr ts)" and "JNull \<notin> set ts"
  shows "delete_todo e req d =
    (if length (filter (\<lambda>t. \<not> matches_key req t) ts) = length ts
     then Inr (sendJSON 404 (error_payload ''Todo not found''), d)
     else if write_ok e
     then Inr (sendJSON 200 (JObj [(''success'', JBool True)]),
               Holds (Encodes (JArr (filter (\<lambda>t. \<not> matches_key req t) ts))))
     else Inl EIO)"
proof (cases "given (query_id req)")
  case True
  then have key: "(\<lambda>t. \<not> matches_key req t)
      = (\<lambda>t. \<not> strict_eq (field ''id'' t) (param (query_id req)))"
    by (simp add: matches_key_def)
  show ?thesis
    unfolding key delete_todo_def
    using True assms(2) filter_js_prop_is_not [OF assms(3), of "''id''" "param (query_id req)"]
    by (simp add: Let_def truthy_param bnd_def writeTodos_def)
next
  case False
  then have key: "(\<lambda>t. \<not> matches_key req t)
      = (\<lambda>t. \<not> strict_eq (field ''title'' t) (param (query_title req)))"
    by (simp add: matches_key_def)
  show ?thesis
    unfolding key delete_todo_def
    using False assms(1,2)
      filter_js_prop_is_not [OF assms(3), of "''title''" "param (query_title req)"]
    by (simp add: Let_def truthy_param bnd_def writeTodos_def)
qed




subsection \<open>Updating a record\<close>

lemma findIndex_from_found:
  assumes "findIndex_from i p ts = Inr idx" and "idx \<noteq> - 1" and "0 \<le> i"
  shows "i \<le> idx \<and> idx < i + int (length ts) \<and> p (ts ! nat (idx - i)) = Inr True"
  using assms
proof (induction ts arbitrary: i)
  case Nil
  then show ?case by simp
next
  case (Cons t ts)
  show ?case
  proof (cases "p t")
    case (Inl err)
    with Cons.prems show ?thesis by simp
  next
    case (Inr hit)
    show ?thesis
    proof (cases hit)
      case True
      with Inr Cons.prems show ?thesis by simp
    next
      case False
      with Inr Cons.prems have rest: "findIndex_from (i + 1) p ts = Inr idx" by simp
      have "i + 1 \<le> idx \<and> idx < i + 1 + int (length ts)
          \<and> p (ts ! nat (idx - (i + 1))) = Inr True"
        using Cons.IH [OF rest] Cons.prems(2,3) by simp
      moreover from this have "nat (idx - i) = Suc (nat (idx - (i + 1)))" by linarith
      ultimately show ?thesis by simp
    qed
  qed
qed

lemma findIndex_js_found:
  assumes "findIndex_js p ts = Inr idx" and "idx \<noteq> - 1"
  shows "0 \<le> idx \<and> nat idx < length ts \<and> p (ts ! nat idx) = Inr True"
  using findIndex_from_found [of 0 p ts idx] assms
  by (auto simp add: findIndex_js_def)

lemma prop_is_hit:
  assumes "prop_is k (param x) t = Inr True"
  shows "\<exists>kvs. t = JObj kvs \<and> strict_eq (field k t) (param x)"
proof -
  have "t \<noteq> JNull"
    using assms by (cases t) (simp_all add: prop_is_def bnd_def)
  then have hit: "strict_eq (field k t) (param x)"
    using assms by (simp add: prop_is_field)
  moreover have "param x \<noteq> None" by (cases x) simp_all
  ultimately show ?thesis using strict_eq_obj by blast
qed

lemma update_todo_success:
  assumes "update_todo e req d = Inr (res, d')" and "status res = 200"
  shows "\<exists>p b ts idx old.
     parseBody (upload req) = Inr p \<and> field ''body'' p = Some b \<and>
     readTodos d = Inr (JArr ts) \<and> idx < length ts \<and> ts ! idx = JObj old \<and>
     matches_key req (ts ! idx) \<and>
     res = sendJSON 200 (JObj (AList.update ''body'' b old)) \<and>
     d' = Holds (Encodes (JArr (ts[idx := JObj (AList.update ''body'' b old)])))"
proof -
  obtain p where p: "parseBody (upload req) = Inr p"
    using assms(1) by (cases "parseBody (upload req)") (simp_all add: update_todo_def bnd_def)
  have pn: "p \<noteq> JNull"
    using assms(1) p by (cases p) (simp_all add: update_todo_def bnd_def)
  obtain b where b: "field ''body'' p = Some b"
    using assms p pn
    by (cases "field ''body'' p")
      (auto simp add: update_todo_def bnd_def get_prop_field sendJSON_def)
  obtain todos where todos: "readTodos d = Inr todos"
    using assms(1) p pn b
    by (cases "readTodos d") (simp_all add: update_todo_def bnd_def get_prop_field)
  obtain ts where ts: "todos = JArr ts"
    using assms(1) p pn b todos
    by (cases todos) (simp_all add: update_todo_def bnd_def get_prop_field)
  define k where "k = (if given (query_id req) then ''id'' else ''title'')"
  define x where "x = (if given (query_id req) then query_id req else query_title req)"
  have rest: "bnd (findIndex_js (prop_is k (param x)) ts) (\<lambda>idx.
        if idx = - 1 then Inr (sendJSON 404 (error_payload ''Todo not found''), d)
        else if idx < 0 \<or> int (length ts) \<le> idx then Inl TypeError
        else bnd (set_prop (ts ! nat idx) ''body'' b) (\<lambda>t.
          bnd (writeTodos e (JArr (ts[nat idx := t])) d) (\<lambda>d'. Inr (sendJSON 200 t, d'))))
      = Inr (res, d')"
    using assms(1) p pn b todos ts
    by (cases "given (query_id req)")
      (simp_all add: update_todo_def bnd_def get_prop_field Let_def truthy_param k_def x_def)
  obtain idx where idx: "findIndex_js (prop_is k (param x)) ts = Inr idx"
    using rest by (cases "findIndex_js (prop_is k (param x)) ts") (simp_all add: bnd_def)
  have found: "idx \<noteq> - 1"
    using rest idx assms(2) by (auto simp add: bnd_def sendJSON_def)
  then have range: "0 \<le> idx" "nat idx < length ts"
    and hit: "prop_is k (param x) (ts ! nat idx) = Inr True"
    using findIndex_js_found [OF idx] by simp_all
  obtain old where old: "ts ! nat idx = JObj old"
    and eq: "strict_eq (field k (ts ! nat idx)) (param x)"
    using prop_is_hit [OF hit] by blast
  have inside: "\<not> (idx < 0 \<or> int (length ts) \<le> idx)"
    using range by linarith
  have "matches_key req (ts ! nat idx)"
    using eq by (simp add: matches_key_def k_def x_def split: if_splits)
  moreover have "res = sendJSON 200 (JObj (AList.update ''body'' b old))"
    and "d' = Holds (Encodes (JArr (ts[nat idx := JObj (AList.update ''body'' b old)])))"
    using rest idx found inside old
    by (auto simp add: bnd_def writeTodos_def split: if_splits)
  ultimately show ?thesis
    using p b todos ts range(2) old by blast
qed

text \<open>
  C5. A successful update (answer 200) has found the record at an index of the loaded
  collection; what is written is that collection with this one record replaced, at the
  same index, by the record of the answer, whose body is the payload's and whose other
  properties, id, title and creation time among them, are those it had. So the length,
  the position and every other record are unchanged.
\<close>

theorem update_changes_only_body:
  assumes "method req = ''PATCH''" and "pathname req = ''/todos/update-todo''"
    and "server e req d = (res, d')" and "status res = 200"
  shows "\<exists>p b ts idx.
     parseBody (upload req) = Inr p \<and> field ''body'' p = Some b \<and>
     readTodos d = Inr (JArr ts) \<and> idx < length ts \<and> matches_key req (ts ! idx) \<and>
     d' = Holds (Encodes (JArr (ts[idx := payload res]))) \<and>
     readTodos d' = Inr (JArr (ts[idx := payload res])) \<and>
     length (ts[idx := payload res]) = length ts \<and>
     (\<forall>j. j \<noteq> idx \<longrightarrow> ts[idx := payload res] ! j = ts ! j) \<and>
     field ''body'' (payload res) = Some b \<and>
     field ''id'' (payload res) = field ''id'' (ts ! idx) \<and>
     field ''title'' (payload res) = field ''title'' (ts ! idx) \<and>
     field ''createdAt'' (payload res) = field ''createdAt'' (ts ! idx) \<and>
     (\<forall>k. k \<noteq> ''body'' \<longrightarrow> field k (payload res) = field k (ts ! idx))"
proof -
  have "update_todo e req d = Inr (res, d')"
  proof (cases "update_todo e req d")
    case (Inl err)
    then show ?thesis
      using assms by (auto simp add: server_def update_route sendJSON_def split: if_splits)
  next
    case (Inr out)
    then show ?thesis
      using assms(1,2,3) by (simp add: server_def update_route)
  qed
  from update_todo_success [OF this assms(4)]
  obtain p b ts idx old where *:
    "parseBody (upload req) = Inr p" "field ''body'' p = Some b"
    "readTodos d = Inr (JArr ts)" "idx < length ts" "ts ! idx = JObj old"
    "matches_key req (ts ! idx)"
    "res = sendJSON 200 (JObj (AList.update ''body'' b old))"
    "d' = Holds (Encodes (JArr (ts[idx := JObj (AList.update ''body'' b old)])))"
    by blast
  have res: "payload res = JObj (AList.update ''body'' b old)"
    using *(7) by (simp add: sendJSON_def)
  have fields: "field k (payload res) = (if k = ''body'' then Some b else field k (ts ! idx))"
    for k
    using res *(5) by (simp add: update_conv')
  have "readTodos d' = Inr (JArr (ts[idx := payload res]))"
    using *(8) res by (simp add: readTodos_def)
  moreover have "\<forall>j. j \<noteq> idx \<longrightarrow> ts[idx := payload res] ! j = ts ! j"
    by simp
  moreover have "\<forall>k. k \<noteq> ''body'' \<longrightarrow> field k (payload res) = field k (ts ! idx)"
    using fields by simp
  moreover have "field ''body'' (payload res) = Some b"
    "field ''id'' (payload res) = field ''id'' (ts ! idx)"
    "field ''title'' (payload res) = field ''title'' (ts ! idx)"
    "field ''createdAt'' (payload res) = field ''createdAt'' (ts ! idx)"
    using fields by simp_all
  ultimately show ?thesis
    using *(1,2,3,4,6,8) res by auto
qed

text \<open>
  An instance: the spec's example \<^verbatim>\<open>PATCH /todos/update-todo?title=buy%20milk\<close> with
  \<^verbatim>\<open>{"body":"2%"}\<close>, on a file holding two records.
\<close>

theorem update_changes_only_body_witness:
  "server env0 (patch_update None (Some ''buy milk'') (Encodes (JObj [(''body'', JStr ''2%'')])))
     (stored [eggs, milk])
   = (sendJSON 200
        (JObj [(''id'', JStr ''1699999999999-7''), (''title'', JStr ''buy milk''),
               (''body'', JStr ''2%''), (''createdAt'', JStr ''11/14/2023, 10:13:19 PM'')]),
      stored [eggs,
        JObj [(''id'', JStr ''1699999999999-7''), (''title'', JStr ''buy milk''),
              (''body'', JStr ''2%''), (''createdAt'', JStr ''11/14/2023, 10:13:19 PM'')]])
   \<and> (\<exists>p b ts idx.
     parseBody (Received (Encodes (JObj [(''body'', JStr ''2%'')]))) = Inr p \<and>
     field ''body'' p = Some b \<and>
     readTodos (stored [eggs, milk]) = Inr (JArr ts) \<and> idx < length ts \<and>
     field ''body'' (ts ! idx) = Some (JStr '''') \<and>
     field ''title'' (ts ! idx) = Some (JStr ''buy milk''))"
proof -
  let ?req = "patch_update None (Some ''buy milk'') (Encodes (JObj [(''body'', JStr ''2%'')]))"
  let ?new = "JObj [(''id'', JStr ''1699999999999-7''), (''title'', JStr ''buy milk''),
               (''body'', JStr ''2%''), (''createdAt'', JStr ''11/14/2023, 10:13:19 PM'')]"
  have run: "server env0 ?req (stored [eggs, milk]) = (sendJSON 200 ?new, stored [eggs, ?new])"
    by (simp add: server_def route_def patch_update_def update_todo_def readTodos_def
        stored_def bnd_def prop_is_def findIndex_js_def writeTodos_def milk_def eggs_def
        env0_def)
  have ok: "status (sendJSON 200 ?new) = 200"
    by (simp add: sendJSON_def)
  from update_changes_only_body [of ?req env0 "stored [eggs, milk]" "sendJSON 200 ?new"
      "stored [eggs, ?new]", OF _ _ run ok]
  obtain p b ts idx where
    "parseBody (upload ?req) = Inr p" "field ''body'' p = Some b"
    "readTodos (stored [eggs, milk]) = Inr (JArr ts)" "idx < length ts"
    "matches_key ?req (ts ! idx)"
    "field ''title'' (payload (sendJSON 200 ?new)) = field ''title'' (ts ! idx)"
    by (auto simp add: patch_update_def)
  moreover from this have "ts = [eggs, milk]"
    by (simp add: readTodos_stored)
  moreover from calculation have "idx = 1"
    by (cases idx) (auto simp add: sendJSON_def eggs_def)
  ultimately show ?thesis
    using run by (auto simp add: patch_update_def milk_def)
qed

subsection \<open>Lookup by id or by title\<close>











subsection \<open>Fetching a record after its creation\<close>

lemma find_js_None: "find_js p ts = Inr None \<Longrightarrow> \<forall>t \<in> set ts. p t = Inr False"
  by (induction ts) (auto split: sum.splits if_splits)

lemma find_js_Some: "find_js p ts = Inr (Some t) \<Longrightarrow> p t = Inr True"
  by (induction ts) (auto split: sum.splits if_splits)

lemma find_js_last:
  "\<forall>t \<in> set ts. p t = Inr False \<Longrightarrow> p r = Inr True \<Longrightarrow> find_js p (ts @ [r]) = Inr (Some r)"
  by (induction ts) simp_all

lemma prop_is_miss:
  assumes "prop_is k v t = Inr False"
  shows "t \<noteq> JNull \<and> \<not> strict_eq (field k t) v"
proof -
  have "t \<noteq> JNull"
    using assms by (cases t) (simp_all add: prop_is_def bnd_def)
  then show ?thesis
    using assms by (simp add: prop_is_field)
qed

lemma create_todo_success:
  assumes "create_todo e req d = Inr (res, d')" and "status res = 201"
  shows "\<exists>p title b ts.
     parseBody (upload req) = Inr p \<and> field ''title'' p = Some title \<and>
     truthy (Some title) \<and> field ''body'' p = Some b \<and>
     readTodos d = Inr (JArr ts) \<and>
     (\<forall>t \<in> set ts. t \<noteq> JNull \<and> \<not> strict_eq (field ''title'' t) (Some title)) \<and>
     res = sendJSON 201
       (JObj [(''id'', JStr (makeId e)), (''title'', title), (''body'', b),
              (''createdAt'', JStr (locale_string e))]) \<and>
     d' = Holds (Encodes (JArr (ts @
       [JObj [(''id'', JStr (makeId e)), (''title'', title), (''body'', b),
              (''createdAt'', JStr (locale_string e))]])))"
proof -
  obtain p where p: "parseBody (upload req) = Inr p"
    using assms(1) by (cases "parseBody (upload req)") (simp_all add: create_todo_def bnd_def)
  have pn: "p \<noteq> JNull"
    using assms(1) p by (cases p) (simp_all add: create_todo_def bnd_def)
  have valid: "passes_validation p"
  proof (rule ccontr)
    assume "\<not> passes_validation p"
    from create_todo_invalid [OF p pn this, of e d] assms show False
      by (simp add: sendJSON_def)
  qed
  then obtain title where title: "field ''title'' p = Some title" "truthy (Some title)"
    by (cases "field ''title'' p") (auto simp: passes_validation_def)
  from valid obtain b where b: "field ''body'' p = Some b"
    by (cases "field ''body'' p") (auto simp: passes_validation_def)
  have guard: "(\<not> truthy (Some b) \<and> \<not> strict_eq (Some b) (Some (JStr ''''))) = False"
    using valid title b by (auto simp add: passes_validation_def strict_eq_empty)
  obtain todos where todos: "readTodos d = Inr todos"
    using assms(1) p pn title b
    by (cases "readTodos d") (simp_all add: create_todo_def bnd_def get_prop_field guard)
  obtain ts where ts: "todos = JArr ts"
    using assms(1) p pn title b todos
    by (cases todos) (simp_all add: create_todo_def bnd_def get_prop_field guard)
  obtain dup where dup: "find_js (prop_is ''title'' (Some title)) ts = Inr dup"
    using assms(1) p pn title b todos ts
    by (cases "find_js (prop_is ''title'' (Some title)) ts")
      (simp_all add: create_todo_def bnd_def get_prop_field guard)
  have rest: "(if truthy dup
       then Inr (sendJSON 409 (error_payload ''Todo with this title already exists''), d)
       else if write_ok e
       then Inr (sendJSON 201
              (JObj [(''id'', JStr (makeId e)), (''title'', title), (''body'', b),
                     (''createdAt'', JStr (locale_string e))]),
            Holds (Encodes (JArr (ts @
              [JObj [(''id'', JStr (makeId e)), (''title'', title), (''body'', b),
                     (''createdAt'', JStr (locale_string e))]]))))
       else Inl EIO)
      = Inr (res, d')"
    using assms(1) p pn title b todos ts dup
    by (auto simp add: create_todo_def bnd_def get_prop_field object_literal_def
        writeTodos_def Let_def guard split: if_splits)
  have no: "\<not> truthy dup" and w: "write_ok e"
    using rest assms(2) by (auto simp add: sendJSON_def split: if_splits)
  have "dup = None"
  proof (cases dup)
    case None
    then show ?thesis .
  next
    case (Some t)
    with dup have "prop_is ''title'' (Some title) t = Inr True"
      using find_js_Some by blast
    then have "\<exists>kvs. t = JObj kvs"
      by (cases t) (simp_all add: prop_is_def bnd_def)
    with no Some show ?thesis by auto
  qed
  with dup have "\<forall>t \<in> set ts. prop_is ''title'' (Some title) t = Inr False"
    using find_js_None by blast
  then have fresh: "\<forall>t \<in> set ts. t \<noteq> JNull \<and> \<not> strict_eq (field ''title'' t) (Some title)"
    using prop_is_miss by blast
  show ?thesis
    using p title b todos ts fresh rest no w by auto
qed

lemma get_todo_last:
  assumes "method req = ''GET''" and "pathname req = ''/todo''"
    and "readTodos d = Inr (JArr (ts @ [JObj kvs]))"
    and "given (query_id req) \<Longrightarrow>
         (\<forall>t \<in> set ts. prop_is ''id'' (param (query_id req)) t = Inr False) \<and>
         prop_is ''id'' (param (query_id req)) (JObj kvs) = Inr True"
    and "\<not> given (query_id req) \<Longrightarrow>
         (\<forall>t \<in> set ts. prop_is ''title'' (param (query_title req)) t = Inr False) \<and>
         prop_is ''title'' (param (query_title req)) (JObj kvs) = Inr True"
  shows "server e req d = (sendJSON 200 (JObj kvs), d)"
proof (cases "given (query_id req)")
  case True
  with assms(4) have "find_js (prop_is ''id'' (param (query_id req))) (ts @ [JObj kvs])
      = Inr (Some (JObj kvs))"
    by (simp add: find_js_last)
  with True assms(1,2,3) show ?thesis
    by (simp add: server_def get_todo_route get_todo_def Let_def bnd_def truthy_param)
next
  case False
  with assms(5) have "find_js (prop_is ''title'' (param (query_title req))) (ts @ [JObj kvs])
      = Inr (Some (JObj kvs))"
    by (simp add: find_js_last)
  with False assms(1,2,3) show ?thesis
    by (simp add: server_def get_todo_route get_todo_def Let_def bnd_def truthy_param)
qed

text \<open>
  C7, as amended. After a successful create (answer 201) that returned the record \<open>r\<close>,
  when the title of \<open>r\<close> is a string and the generated id of \<open>r\<close> is not the id of a
  record the collection already held: fetching by the id of \<open>r\<close> and fetching by the
  title of \<open>r\<close> both answer 200 with \<open>r\<close>. (That no other record has the title of \<open>r\<close>
  follows from the success of the create; uniqueness of the ids and titles already there
  is not needed.)
\<close>

theorem fetch_after_create:
  assumes "method req = ''POST''" and "pathname req = ''/todos/create-todo''"
    and "server e req d = (res, d')" and "status res = 201"
    and "field ''title'' (payload res) = Some (JStr t)"
    and "\<forall>x \<in> set (collection d). field ''id'' x \<noteq> field ''id'' (payload res)"
  shows "field ''id'' (payload res) = Some (JStr (makeId e)) \<and>
     server e1 (req1\<lparr>method := ''GET'', pathname := ''/todo'',
                     query_id := Some (makeId e), query_title := None\<rparr>) d'
       = (sendJSON 200 (payload res), d') \<and>
     server e2 (req2\<lparr>method := ''GET'', pathname := ''/todo'',
                     query_id := None, query_title := Some t\<rparr>) d'
       = (sendJSON 200 (payload res), d')"
proof -
  have "create_todo e req d = Inr (res, d')"
  proof (cases "create_todo e req d")
    case (Inl err)
    then show ?thesis
      using assms by (auto simp add: server_def create_route sendJSON_def split: if_splits)
  next
    case (Inr out)
    then show ?thesis
      using assms(1,2,3) by (simp add: server_def create_route)
  qed
  from create_todo_success [OF this assms(4)]
  obtain p title b ts where *:
    "truthy (Some title)"
    "readTodos d = Inr (JArr ts)"
    "\<forall>t \<in> set ts. t \<noteq> JNull \<and> \<not> strict_eq (field ''title'' t) (Some title)"
    "res = sendJSON 201
       (JObj [(''id'', JStr (makeId e)), (''title'', title), (''body'', b),
              (''createdAt'', JStr (locale_string e))])"
    "d' = Holds (Encodes (JArr (ts @
       [JObj [(''id'', JStr (makeId e)), (''title'', title), (''body'', b),
              (''createdAt'', JStr (locale_string e))]])))"
    by blast
  let ?kvs = "[(''id'', JStr (makeId e)), (''title'', title), (''body'', b),
              (''createdAt'', JStr (locale_string e))]"
  have r: "payload res = JObj ?kvs"
    using *(4) by (simp add: sendJSON_def)
  have title: "title = JStr t"
    using assms(5) r by simp
  have load: "readTodos d' = Inr (JArr (ts @ [JObj ?kvs]))"
    using *(5) by (simp add: readTodos_def)
  have "collection d = ts"
    using *(2) by (simp add: collection_def)
  then have ids: "\<forall>t \<in> set ts. field ''id'' t \<noteq> Some (JStr (makeId e))"
    using assms(6) r by simp
  have by_id: "\<forall>t \<in> set ts. prop_is ''id'' (Some (JStr (makeId e))) t = Inr False"
    using ids *(3) by (simp add: prop_is_field strict_eq_JStr)
  have by_title: "\<forall>x \<in> set ts. prop_is ''title'' (Some (JStr t)) x = Inr False"
    using *(3) title by (simp add: prop_is_field)
  have "server e1 (req1\<lparr>method := ''GET'', pathname := ''/todo'',
                     query_id := Some (makeId e), query_title := None\<rparr>) d'
       = (sendJSON 200 (JObj ?kvs), d')"
    using by_id
    by (intro get_todo_last [where ts = ts]) (simp_all add: load makeId_nonempty prop_is_def bnd_def)
  moreover have "server e2 (req2\<lparr>method := ''GET'', pathname := ''/todo'',
                     query_id := None, query_title := Some t\<rparr>) d'
       = (sendJSON 200 (JObj ?kvs), d')"
    using by_title title
    by (intro get_todo_last [where ts = ts]) (simp_all add: load prop_is_def bnd_def)
  ultimately show ?thesis
    using r by simp
qed

text \<open>
  An instance: \<^verbatim>\<open>{"title":"buy eggs","body":"a dozen"}\<close> is created next to one record and
  then fetched by its id and by its title.
\<close>

theorem fetch_after_create_witness:
  "server env0 (get_one (Some ''1700000000000-42'') None)
     (stored [milk,
        JObj [(''id'', JStr ''1700000000000-42''), (''title'', JStr ''buy eggs''),
              (''body'', JStr ''a dozen''), (''createdAt'', JStr ''11/14/2023, 10:13:20 PM'')]])
   = (sendJSON 200
        (JObj [(''id'', JStr ''1700000000000-42''), (''title'', JStr ''buy eggs''),
               (''body'', JStr ''a dozen''), (''createdAt'', JStr ''11/14/2023, 10:13:20 PM'')]),
      stored [milk,
        JObj [(''id'', JStr ''1700000000000-42''), (''title'', JStr ''buy eggs''),
              (''body'', JStr ''a dozen''), (''createdAt'', JStr ''11/14/2023, 10:13:20 PM'')]])
   \<and> server env0 (get_one None (Some ''buy eggs''))
     (stored [milk,
        JObj [(''id'', JStr ''1700000000000-42''), (''title'', JStr ''buy eggs''),
              (''body'', JStr ''a dozen''), (''createdAt'', JStr ''11/14/2023, 10:13:20 PM'')]])
   = (sendJSON 200
        (JObj [(''id'', JStr ''1700000000000-42''), (''title'', JStr ''buy eggs''),
               (''body'', JStr ''a dozen''), (''createdAt'', JStr ''11/14/2023, 10:13:20 PM'')]),
      stored [milk,
        JObj [(''id'', JStr ''1700000000000-42''), (''title'', JStr ''buy eggs''),
              (''body'', JStr ''a dozen''), (''createdAt'', JStr ''11/14/2023, 10:13:20 PM'')]])"
proof -
  let ?req = "post_create (Encodes (JObj [(''title'', JStr ''buy eggs''), (''body'', JStr ''a dozen'')]))"
  let ?r = "JObj [(''id'', JStr ''1700000000000-42''), (''title'', JStr ''buy eggs''),
              (''body'', JStr ''a dozen''), (''createdAt'', JStr ''11/14/2023, 10:13:20 PM'')]"
  have run: "server env0 ?req (stored [milk]) = (sendJSON 201 ?r, stored [milk, ?r])"
    by (simp add: server_def route_def post_create_def create_todo_def readTodos_def
        stored_def bnd_def prop_is_def object_literal_def writeTodos_def milk_def env0_def
        makeId_def decimal_now0 decimal_rnd0 Let_def)
  have "field ''id'' (payload (sendJSON 201 ?r)) = Some (JStr (makeId env0)) \<and>
     server env0 ((get_one None None)\<lparr>method := ''GET'', pathname := ''/todo'',
                     query_id := Some (makeId env0), query_title := None\<rparr>) (stored [milk, ?r])
       = (sendJSON 200 (payload (sendJSON 201 ?r)), stored [milk, ?r]) \<and>
     server env0 ((get_one None None)\<lparr>method := ''GET'', pathname := ''/todo'',
                     query_id := None, query_title := Some ''buy eggs''\<rparr>) (stored [milk, ?r])
       = (sendJSON 200 (payload (sendJSON 201 ?r)), stored [milk, ?r])"
    by (rule fetch_after_create [OF _ _ run])
      (simp_all add: post_create_def sendJSON_def collection_def readTodos_stored milk_def)
  then show ?thesis
    by (simp add: get_one_def makeId_env0 sendJSON_def)
qed

text \<open>
  C7 as it is worded fails in two places. Where the generated id is the id of a record
  already there: the collection \<^verbatim>\<open>[clash]\<close> has unique ids and titles, the create is
  answered 201 with a record of the same id, and fetching by that id returns the older
  record. Where the title is not a string: \<^verbatim>\<open>{"title":5,"body":""}\<close> is created with the
  number as title, and fetching by the title \<^verbatim>\<open>5\<close> finds nothing.
\<close>

theorem fetch_after_create_collision_counterexample:
  "distinct (map (field ''id'') [clash]) \<and> distinct (map (field ''title'') [clash])
   \<and> server env0
        (post_create (Encodes (JObj [(''title'', JStr ''walk dog''), (''body'', JStr '''')])))
        (stored [clash])
     = (sendJSON 201
          (JObj [(''id'', JStr ''1700000000000-42''), (''title'', JStr ''walk dog''),
                 (''body'', JStr ''''), (''createdAt'', JStr ''11/14/2023, 10:13:20 PM'')]),
        stored [clash,
          JObj [(''id'', JStr ''1700000000000-42''), (''title'', JStr ''walk dog''),
                (''body'', JStr ''''), (''createdAt'', JStr ''11/14/2023, 10:13:20 PM'')]])
   \<and> server env0 (get_one (Some ''1700000000000-42'') None)
        (stored [clash,
          JObj [(''id'', JStr ''1700000000000-42''), (''title'', JStr ''walk dog''),
                (''body'', JStr ''''), (''createdAt'', JStr ''11/14/2023, 10:13:20 PM'')]])
     = (sendJSON 200 clash,
        stored [clash,
          JObj [(''id'', JStr ''1700000000000-42''), (''title'', JStr ''walk dog''),
                (''body'', JStr ''''), (''createdAt'', JStr ''11/14/2023, 10:13:20 PM'')]])
   \<and> clash \<noteq>
        JObj [(''id'', JStr ''1700000000000-42''), (''title'', JStr ''walk dog''),
              (''body'', JStr ''''), (''createdAt'', JStr ''11/14/2023, 10:13:20 PM'')]
   \<and> server env0
        (post_create (Encodes (JObj [(''title'', JNum 5), (''body'', JStr '''')])))
        (stored [milk])
     = (sendJSON 201
          (JObj [(''id'', JStr ''1700000000000-42''), (''title'', JNum 5),
                 (''body'', JStr ''''), (''createdAt'', JStr ''11/14/2023, 10:13:20 PM'')]),
        stored [milk,
          JObj [(''id'', JStr ''1700000000000-42''), (''title'', JNum 5),
                (''body'', JStr ''''), (''createdAt'', JStr ''11/14/2023, 10:13:20 PM'')]])
   \<and> server env0 (get_one None (Some ''5''))
        (stored [milk,
          JObj [(''id'', JStr ''1700000000000-42''), (''title'', JNum 5),
                (''body'', JStr ''''), (''createdAt'', JStr ''11/14/2023, 10:13:20 PM'')]])
     = (sendJSON 404 (error_payload ''Todo not found''),
        stored [milk,
          JObj [(''id'', JStr ''1700000000000-42''), (''title'', JNum 5),
                (''body'', JStr ''''), (''createdAt'', JStr ''11/14/2023, 10:13:20 PM'')]])"
  by (simp add: server_def route_def post_create_def get_one_def create_todo_def get_todo_def
      readTodos_def stored_def bnd_def prop_is_def object_literal_def writeTodos_def
      milk_def clash_def env0_def makeId_def decimal_now0 decimal_rnd0 Let_def)

subsection \<open>The order of the collection\<close>

lemma collection_stored [simp]: "collection (Holds (Encodes (JArr ts))) = ts"
  by (simp add: collection_def readTodos_def)

lemma collection_read: "readTodos d = Inr (JArr ts) \<Longrightarrow> collection d = ts"
  by (simp add: collection_def)

lemma route_cases:
  "route e req d = get_todos d \<or> route e req d = get_todo req d \<or>
   (method req = ''POST'' \<and> pathname req = ''/todos/create-todo'' \<and>
      route e req d = create_todo e req d) \<or>
   (method req = ''PATCH'' \<and> pathname req = ''/todos/update-todo'' \<and>
      route e req d = update_todo e req d) \<or>
   (method req = ''DELETE'' \<and> pathname req = ''/todos/delete-todo'' \<and>
      route e req d = delete_todo e req d) \<or>
   route e req d = Inr (sendJSON 404 (error_payload ''Route Not Found''), d)"
  by (simp add: route_def)

lemma route_delete_only:
  "method req = ''DELETE'' \<and> pathname req = ''/todos/delete-todo''
     \<Longrightarrow> route e req d = delete_todo e req d"
  by (simp add: route_def)

lemma server_Inl: "route e req d = Inl err \<Longrightarrow> snd (server e req d) = d"
  by (simp add: server_def)

lemma server_Inl_status: "route e req d = Inl err \<Longrightarrow> status (fst (server e req d)) \<noteq> 200"
  by (simp add: server_def sendJSON_def)

lemma server_Inr: "route e req d = Inr (res, d') \<Longrightarrow> server e req d = (res, d')"
  by (simp add: server_def)

lemma get_todos_disk: "get_todos d = Inr (res, d') \<Longrightarrow> d' = d"
  by (auto simp add: get_todos_def bnd_def split: sum.splits)

lemma get_todo_disk: "get_todo req d = Inr (res, d') \<Longrightarrow> d' = d"
  by (auto simp add: get_todo_def bnd_def Let_def split: sum.splits option.splits if_splits)

lemma create_todo_disk:
  "create_todo e req d = Inr (res, d') \<Longrightarrow> status res \<noteq> 201 \<Longrightarrow> d' = d"
  by (auto simp add: create_todo_def bnd_def Let_def sendJSON_def split: sum.splits if_splits)

lemma update_todo_disk:
  "update_todo e req d = Inr (res, d') \<Longrightarrow> status res \<noteq> 200 \<Longrightarrow> d' = d"
  by (auto simp add: update_todo_def bnd_def Let_def sendJSON_def
      split: sum.splits option.splits if_splits)

lemma delete_todo_disk:
  "delete_todo e req d = Inr (res, d') \<Longrightarrow> status res \<noteq> 200 \<Longrightarrow> d' = d"
  by (auto simp add: delete_todo_def bnd_def Let_def sendJSON_def split: sum.splits if_splits)

lemma filter_js_evaluates:
  "filter_js p ts = Inr r \<Longrightarrow> t \<in> set ts \<Longrightarrow> \<exists>b. p t = Inr b"
  by (induction ts arbitrary: r) (auto split: sum.splits)

lemma prop_is_not_null: "prop_is_not k v JNull = Inl TypeError"
  by (simp add: prop_is_not_def bnd_def)

lemma delete_todo_success:
  assumes "delete_todo e req d = Inr (res, d')" and "status res = 200"
  shows "\<exists>ts. readTodos d = Inr (JArr ts) \<and>
     d' = Holds (Encodes (JArr (filter (\<lambda>t. \<not> matches_key req t) ts)))"
proof -
  have key: "given (query_id req) \<or> given (query_title req)"
    using assms
    by (auto simp add: delete_todo_def Let_def truthy_param sendJSON_def split: if_splits)
  obtain todos where todos: "readTodos d = Inr todos"
    using assms(1) key
    by (cases "readTodos d") (auto simp add: delete_todo_def Let_def truthy_param bnd_def)
  obtain ts where ts: "todos = JArr ts"
    using assms(1) key todos
    by (cases todos) (auto simp add: delete_todo_def Let_def truthy_param bnd_def)
  define q where "q = (\<lambda>t. if truthy (param (query_id req))
        then prop_is_not ''id'' (param (query_id req)) t
        else prop_is_not ''title'' (param (query_title req)) t)"
  obtain r where r: "filter_js q ts = Inr r"
    using assms(1) key todos ts
    by (cases "filter_js q ts") (auto simp add: delete_todo_def Let_def truthy_param bnd_def q_def)
  have "JNull \<notin> set ts"
  proof
    assume "JNull \<in> set ts"
    from filter_js_evaluates [OF r this] show False
      by (simp add: q_def prop_is_not_null split: if_splits)
  qed
  from delete_todo_filter [OF key todos [unfolded ts] this] assms show ?thesis
    using todos ts by (auto simp add: sendJSON_def split: if_splits)
qed

lemma removes_step:
  assumes "removes e req d"
  shows "collection (snd (server e req d))
     = filter (\<lambda>t. \<not> matches_key req t) (collection d)"
proof -
  have r: "route e req d = delete_todo e req d"
    using assms by (simp add: removes_def route_delete_only)
  have ok: "status (fst (server e req d)) = 200"
    using assms by (simp add: removes_def)
  obtain res d' where out: "delete_todo e req d = Inr (res, d')"
    using r ok server_Inl_status [of e req d]
    by (cases "delete_todo e req d") auto
  then have s: "server e req d = (res, d')"
    using r by (simp add: server_Inr)
  with ok have "status res = 200" by simp
  from delete_todo_success [OF out this] s show ?thesis
    by (auto simp add: collection_read)
qed

lemma keeps_step:
  assumes "\<not> removes e req d"
  shows "collection (snd (server e req d)) = collection d \<or>
     (\<exists>r. collection (snd (server e req d)) = collection d @ [r]) \<or>
     (\<exists>k t. k < length (collection d) \<and> without_body t = without_body (collection d ! k) \<and>
        collection (snd (server e req d)) = (collection d)[k := t])"
proof (cases "route e req d")
  case (Inl err)
  then show ?thesis by (simp add: server_Inl)
next
  case (Inr out)
  obtain res d' where out: "out = (res, d')" by (cases out)
  with Inr have s: "server e req d = (res, d')" by (simp add: server_Inr)
  consider (list) "route e req d = get_todos d" | (one) "route e req d = get_todo req d"
    | (create) "method req = ''POST''" "pathname req = ''/todos/create-todo''"
        "route e req d = create_todo e req d"
    | (update) "method req = ''PATCH''" "pathname req = ''/todos/update-todo''"
        "route e req d = update_todo e req d"
    | (delete) "method req = ''DELETE''" "pathname req = ''/todos/delete-todo''"
        "route e req d = delete_todo e req d"
    | (other) "route e req d = Inr (sendJSON 404 (error_payload ''Route Not Found''), d)"
    using route_cases [of e req d] by blast
  then show ?thesis
  proof cases
    case list
    with Inr out have "get_todos d = Inr (res, d')" by simp
    from get_todos_disk [OF this] s show ?thesis by simp
  next
    case one
    with Inr out have "get_todo req d = Inr (res, d')" by simp
    from get_todo_disk [OF this] s show ?thesis by simp
  next
    case create
    show ?thesis
    proof (cases "status res = 201")
      case True
      from create(3) Inr out have "create_todo e req d = Inr (res, d')" by simp
      from create_todo_success [OF this True]
      obtain ts r where "readTodos d = Inr (JArr ts)" "d' = Holds (Encodes (JArr (ts @ [r])))"
        by blast
      with s show ?thesis by (auto simp add: collection_read)
    next
      case False
      from create(3) Inr out have "create_todo e req d = Inr (res, d')" by simp
      from create_todo_disk [OF this False] s show ?thesis by simp
    qed
  next
    case update
    show ?thesis
    proof (cases "status res = 200")
      case True
      from update(3) Inr out have "update_todo e req d = Inr (res, d')" by simp
      from update_todo_success [OF this True]
      obtain b ts idx old where *: "readTodos d = Inr (JArr ts)" "idx < length ts"
        "ts ! idx = JObj old"
        "d' = Holds (Encodes (JArr (ts[idx := JObj (AList.update ''body'' b old)])))"
        by blast
      have c: "collection d = ts"
        using *(1) by (rule collection_read)
      have "without_body (JObj (AList.update ''body'' b old)) = without_body (collection d ! idx)"
        using *(3) c by (simp add: delete_update_same)
      moreover have "idx < length (collection d)"
        using *(2) c by simp
      moreover have "collection (snd (server e req d))
          = (collection d)[idx := JObj (AList.update ''body'' b old)]"
        using *(4) s c by simp
      ultimately show ?thesis by blast
    next
      case False
      from update(3) Inr out have "update_todo e req d = Inr (res, d')" by simp
      from update_todo_disk [OF this False] s show ?thesis by simp
    qed
  next
    case delete
    with assms s have no: "status res \<noteq> 200" by (simp add: removes_def)
    from delete(3) Inr out have "delete_todo e req d = Inr (res, d')" by simp
    from delete_todo_disk [OF this no] s show ?thesis by simp
  next
    case other
    with Inr out s show ?thesis by simp
  qed
qed

lemma filter_split_at:
  assumes "i < length ts" and "P (ts ! i)"
  shows "filter P ts = filter P (take i ts) @ ts ! i # filter P (drop (Suc i) ts)"
proof -
  have "filter P ts = filter P (take i ts @ ts ! i # drop (Suc i) ts)"
    using assms(1) by (simp add: id_take_nth_drop [symmetric])
  with assms(2) show ?thesis by simp
qed

lemma filter_position:
  assumes "i < length ts" and "P (ts ! i)"
  shows "length (filter P (take i ts)) < length (filter P ts)"
    and "filter P ts ! length (filter P (take i ts)) = ts ! i"
  using filter_split_at [of i ts P, OF assms] by simp_all

lemma filter_position_mono:
  assumes "i < k" and "k < length ts" and "P (ts ! i)"
  shows "length (filter P (take i ts)) < length (filter P (take k ts))"
proof -
  have "i < length (take k ts)" and "P (take k ts ! i)"
    using assms by simp_all
  from filter_position(1) [of i "take k ts" P, OF this] assms(1) show ?thesis
    by (simp add: min_def)
qed

lemma track_kept:
  assumes "track e req d i = Some j"
  shows "j < length (collection (snd (server e req d))) \<and>
     without_body (collection (snd (server e req d)) ! j) = without_body (collection d ! i)"
proof (cases "removes e req d")
  case True
  from assms True have i: "i < length (collection d)" and keep: "\<not> matches_key req (collection d ! i)"
    and j: "j = length (filter (\<lambda>t. \<not> matches_key req t) (take i (collection d)))"
    by (auto simp add: track_def Let_def split: if_splits)
  from filter_position [of i "collection d" "\<lambda>t. \<not> matches_key req t", OF i keep]
  show ?thesis
    by (simp add: removes_step [OF True] j)
next
  case False
  from assms False have i: "i < length (collection d)" and j: "j = i"
    by (auto simp add: track_def Let_def split: if_splits)
  from keeps_step [OF False] show ?thesis
  proof (elim disjE exE conjE)
    assume "collection (snd (server e req d)) = collection d"
    with i j show ?thesis by simp
  next
    fix r assume "collection (snd (server e req d)) = collection d @ [r]"
    with i j show ?thesis by (simp add: nth_append)
  next
    fix k t assume "k < length (collection d)"
      and "without_body t = without_body (collection d ! k)"
      and "collection (snd (server e req d)) = (collection d)[k := t]"
    with i j show ?thesis by (cases "k = i") simp_all
  qed
qed

lemma track_mono:
  assumes "i < k" and "track e req d i = Some j" and "track e req d k = Some l"
  shows "j < l"
proof (cases "removes e req d")
  case True
  from assms(2,3) True have "k < length (collection d)"
    and "\<not> matches_key req (collection d ! i)"
    and "j = length (filter (\<lambda>t. \<not> matches_key req t) (take i (collection d)))"
    and "l = length (filter (\<lambda>t. \<not> matches_key req t) (take k (collection d)))"
    by (auto simp add: track_def Let_def split: if_splits)
  with assms(1) show ?thesis
    using filter_position_mono [of i k "collection d" "\<lambda>t. \<not> matches_key req t"] by simp
next
  case False
  with assms show ?thesis
    by (auto simp add: track_def Let_def split: if_splits)
qed

lemma track_run_kept:
  "track_run rs d i = Some j \<Longrightarrow>
     j < length (collection (run rs d)) \<and>
     without_body (collection (run rs d) ! j) = without_body (collection d ! i)"
proof (induction rs arbitrary: d i)
  case Nil
  then show ?case by (simp split: if_splits)
next
  case (Cons a rs)
  obtain e req where a: "a = (e, req)" by (cases a)
  from Cons.prems a obtain m where m: "track e req d i = Some m"
    and rest: "track_run rs (snd (server e req d)) m = Some j"
    by (auto split: option.splits)
  from Cons.IH [OF rest] track_kept [OF m] a show ?case by simp
qed

lemma track_run_mono:
  "i < k \<Longrightarrow> track_run rs d i = Some j \<Longrightarrow> track_run rs d k = Some l \<Longrightarrow> j < l"
proof (induction rs arbitrary: d i k)
  case Nil
  then show ?case by (simp split: if_splits)
next
  case (Cons a rs)
  obtain e req where a: "a = (e, req)" by (cases a)
  from Cons.prems a obtain m where m: "track e req d i = Some m"
    and rest: "track_run rs (snd (server e req d)) m = Some j"
    by (auto split: option.splits)
  from Cons.prems a obtain n where n: "track e req d k = Some n"
    and rest': "track_run rs (snd (server e req d)) n = Some l"
    by (auto split: option.splits)
  from track_mono [OF Cons.prems(1) m n] have "m < n" .
  from Cons.IH [OF this rest rest'] show ?case .
qed

text \<open>
  C9. A delete request that is answered 200 leaves the records that do not match its
  key, in their order; any other request leaves the collection as it was, or with one
  record added at the end, or with one record replaced where it stands by a record that
  differs from it in the body at most. Through any sequence of requests, a record
  that is still there is the record it was, up to its body, and of two records that are
  still there the one that stood first stands first.
\<close>

theorem order_is_preserved:
  "(removes e req d \<longrightarrow>
      collection (snd (server e req d))
        = filter (\<lambda>t. \<not> matches_key req t) (collection d)) \<and>
   (\<not> removes e req d \<longrightarrow>
      (collection (snd (server e req d)) = collection d \<or>
       (\<exists>r. collection (snd (server e req d)) = collection d @ [r]) \<or>
       (\<exists>k t. k < length (collection d) \<and>
          without_body t = without_body (collection d ! k) \<and>
          collection (snd (server e req d)) = (collection d)[k := t]))) \<and>
   (track_run rs d i = Some j \<longrightarrow>
      j < length (collection (run rs d)) \<and>
      without_body (collection (run rs d) ! j) = without_body (collection d ! i)) \<and>
   (i < k \<and> track_run rs d i = Some j \<and> track_run rs d k = Some l \<longrightarrow> j < l)"
proof (intro conjI impI)
  assume "removes e req d"
  then show "collection (snd (server e req d))
      = filter (\<lambda>t. \<not> matches_key req t) (collection d)"
    by (rule removes_step)
next
  assume "\<not> removes e req d"
  then show "collection (snd (server e req d)) = collection d \<or>
       (\<exists>r. collection (snd (server e req d)) = collection d @ [r]) \<or>
       (\<exists>k t. k < length (collection d) \<and>
          without_body t = without_body (collection d ! k) \<and>
          collection (snd (server e req d)) = (collection d)[k := t])"
    by (rule keeps_step)
next
  assume "track_run rs d i = Some j"
  then show "j < length (collection (run rs d))"
    and "without_body (collection (run rs d) ! j) = without_body (collection d ! i)"
    using track_run_kept by blast+
next
  assume "i < k \<and> track_run rs d i = Some j \<and> track_run rs d k = Some l"
  then show "j < l"
    using track_run_mono by blast
qed

text \<open>
  An instance: on a file holding three records, the body of the third is updated, the
  second is deleted and a fourth is created. The first and the third are then the first
  and the second, before the new one.
\<close>

theorem order_is_preserved_witness:
  "track_run
     [(env0, patch_update None (Some ''make tea'') (Encodes (JObj [(''body'', JStr ''green'')]))),
      (env0, delete_one None (Some ''buy eggs'')),
      (env0, post_create (Encodes (JObj [(''title'', JStr ''walk dog''), (''body'', JStr '''')])))]
     (stored [milk, eggs, tea]) 0 = Some 0 \<and>
   track_run
     [(env0, patch_update None (Some ''make tea'') (Encodes (JObj [(''body'', JStr ''green'')]))),
      (env0, delete_one None (Some ''buy eggs'')),
      (env0, post_create (Encodes (JObj [(''title'', JStr ''walk dog''), (''body'', JStr '''')])))]
     (stored [milk, eggs, tea]) 2 = Some 1 \<and>
   collection (run
     [(env0, patch_update None (Some ''make tea'') (Encodes (JObj [(''body'', JStr ''green'')]))),
      (env0, delete_one None (Some ''buy eggs'')),
      (env0, post_create (Encodes (JObj [(''title'', JStr ''walk dog''), (''body'', JStr '''')])))]
     (stored [milk, eggs, tea]))
   = [milk,
      JObj [(''id'', JStr ''1699999999999-9''), (''title'', JStr ''make tea''),
            (''body'', JStr ''green''), (''createdAt'', JStr ''11/14/2023, 10:13:19 PM'')],
      JObj [(''id'', JStr ''1700000000000-42''), (''title'', JStr ''walk dog''),
            (''body'', JStr ''''), (''createdAt'', JStr ''11/14/2023, 10:13:20 PM'')]]"
proof -
  let ?up = "patch_update None (Some ''make tea'') (Encodes (JObj [(''body'', JStr ''green'')]))"
  let ?del = "delete_one None (Some ''buy eggs'')"
  let ?new = "post_create (Encodes (JObj [(''title'', JStr ''walk dog''), (''body'', JStr '''')]))"
  let ?tea = "JObj [(''id'', JStr ''1699999999999-9''), (''title'', JStr ''make tea''),
            (''body'', JStr ''green''), (''createdAt'', JStr ''11/14/2023, 10:13:19 PM'')]"
  let ?dog = "JObj [(''id'', JStr ''1700000000000-42''), (''title'', JStr ''walk dog''),
            (''body'', JStr ''''), (''createdAt'', JStr ''11/14/2023, 10:13:20 PM'')]"
  have s1: "server env0 ?up (stored [milk, eggs, tea]) = (sendJSON 200 ?tea, stored [milk, eggs, ?tea])"
    by (simp add: server_def route_def patch_update_def update_todo_def readTodos_def
        stored_def bnd_def prop_is_def findIndex_js_def writeTodos_def milk_def eggs_def tea_def
        env0_def)
  have s2: "server env0 ?del (stored [milk, eggs, ?tea])
      = (sendJSON 200 (JObj [(''success'', JBool True)]), stored [milk, ?tea])"
    by (simp add: server_def route_def delete_one_def delete_todo_def readTodos_def
        stored_def bnd_def prop_is_not_def writeTodos_def milk_def eggs_def env0_def)
  have s3: "server env0 ?new (stored [milk, ?tea]) = (sendJSON 201 ?dog, stored [milk, ?tea, ?dog])"
    by (simp add: server_def route_def post_create_def create_todo_def readTodos_def
        stored_def bnd_def prop_is_def object_literal_def writeTodos_def milk_def env0_def
        makeId_def decimal_now0 decimal_rnd0 Let_def)
  have c: "collection (stored ts) = ts" for ts
    by (simp add: stored_def)
  have r1: "\<not> removes env0 ?up (stored [milk, eggs, tea])"
    by (simp add: removes_def patch_update_def)
  have r2: "removes env0 ?del (stored [milk, eggs, ?tea])"
    by (simp add: removes_def s2 sendJSON_def) (simp add: delete_one_def)
  have r3: "\<not> removes env0 ?new (stored [milk, ?tea])"
    by (simp add: removes_def post_create_def)
  have m: "\<not> matches_key ?del milk" "matches_key ?del eggs" "\<not> matches_key ?del ?tea"
    by (simp_all add: matches_key_def delete_one_def milk_def eggs_def)
  have t0: "track_run [(env0, ?up), (env0, ?del), (env0, ?new)] (stored [milk, eggs, tea]) 0 = Some 0"
    by (simp add: track_def c r1 r2 r3 s1 s2 s3 m)
  have t2: "track_run [(env0, ?up), (env0, ?del), (env0, ?new)] (stored [milk, eggs, tea]) 2 = Some 1"
    by (simp add: track_def c r1 r2 r3 s1 s2 s3 m)
  have "(0::nat) < 1"
    using order_is_preserved [of env0 ?up "stored [milk, eggs, tea]"
        "[(env0, ?up), (env0, ?del), (env0, ?new)]" 0 0 2 1] t0 t2
    by blast
  moreover have "collection (run [(env0, ?up), (env0, ?del), (env0, ?new)] (stored [milk, eggs, tea]))
      = [milk, ?tea, ?dog]"
    by (simp add: s1 s2 s3 c)
  ultimately show ?thesis
    using t0 t2 by simp
qed

end
